theory Spec2Isabelle
  imports
    Complex_Main
    "HOL-Library.Char_ord"
    "HOL-Library.List_Lexorder"
    "HOL-Library.Product_Lexorder"
    "HOL-Library.Multiset"
begin

section \<open>Maryland Vector Hotspot Explorer: the analysis run of \<^verbatim>\<open>app.py\<close>\<close>

text \<open>
  The development embeds the part of \<^verbatim>\<open>app.py\<close> that computes: the sidebar's county
  selection (lines 42-61) and the handler of the "Run Analysis" button (lines 64-215).

  Conventions of the embedding.
  \<^item> A data frame is the list of its rows, in row order; a row is a record of the columns
    that \<^verbatim>\<open>app.py\<close> reads. A cell that holds NaN (or NaT) is \<open>None\<close>.
  \<^item> The three functions imported from \<^verbatim>\<open>fetch_and_prepare\<close>, the county file and the
    date assembly of pandas are parameters of the run (the record \<open>env\<close>): every theorem
    holds for whatever they return.
  \<^item> The risk score is embedded twice. \<open>county_counts_with\<close> takes numpy's \<^verbatim>\<open>log1p\<close>,
    division and \<^verbatim>\<open>round\<close> as parameters, and says nothing of what they compute: the
    value of the score is stated over it. \<open>county_counts\<close> is its instance on the reals
    (\<open>county_counts_real\<close> below), where \<^verbatim>\<open>np.log1p\<close> is \<open>\<lambda>x. ln (1 + x)\<close> and rounding is
    numpy's (scale by 100, round half to even, scale back): the bounds and the order of
    the scores are stated over it, and an exact real and its double can differ in the
    last decimal when the quotient is at a tie.
  \<^item> An exception is a value: \<open>Inl\<close> of the exception's text.
\<close>

subsection \<open>The occurrence frames\<close>

text \<open>
  The fetched frame has the GBIF columns \<^verbatim>\<open>year\<close> and \<^verbatim>\<open>month\<close>, which may be
  missing in a record. Line 75 adds \<^verbatim>\<open>queried_scientificName\<close>, line 88 adds
  \<^verbatim>\<open>year_month\<close> (NaT where the date cannot be assembled), and the spatial join of
  line 94 adds \<^verbatim>\<open>NAME_2\<close>, the county's name, which line 54 treats as possibly
  missing (\<^verbatim>\<open>.dropna()\<close>).
\<close>

record fetched =
  year :: "int option"
  month :: "int option"

record occurrence = fetched +
  queried_scientificName :: string

record dated = occurrence +
  year_month :: "int option"

record joined = dated +
  NAME_2 :: "string option"

subsection \<open>Grouping\<close>

text \<open>
  \<^verbatim>\<open>frame.groupby(cols).size().reset_index(name=...)\<close>: rows with a missing key cell are
  left out (pandas' default \<^verbatim>\<open>dropna=True\<close>), every key that remains gives one row, the
  rows come sorted by key (\<^verbatim>\<open>sort=True\<close>), and the new column counts the rows of the
  group. The key function returns the tuple of the key columns, \<open>None\<close> when one of them is
  missing.
\<close>

definition groupby_size :: "('r \<Rightarrow> 'k::linorder option) \<Rightarrow> 'r list \<Rightarrow> ('k \<times> nat) list" where
  "groupby_size key rows =
     (let ks = List.map_filter key rows
      in map (\<lambda>k. (k, count_list ks k)) (sort (remdups ks)))"

subsection \<open>The risk score (lines 98-106)\<close>

definition log1p :: "real \<Rightarrow> real" where
  "log1p x = ln (1 + x)"

text \<open>\<^verbatim>\<open>np.rint\<close>: the nearest integer, a tie going to the even neighbour.\<close>

definition rint :: "real \<Rightarrow> int" where
  "rint x =
     (let f = \<lfloor>x\<rfloor>; d = x - of_int f
      in if d < 1 / 2 then f
         else if 1 / 2 < d then f + 1
         else if even f then f else f + 1)"

text \<open>\<^verbatim>\<open>Series.round(decimals)\<close>, which is numpy's \<^verbatim>\<open>around\<close>.\<close>

definition around :: "nat \<Rightarrow> real \<Rightarrow> real" where
  "around decimals x = of_int (rint (x * 10 ^ decimals)) / 10 ^ decimals"

text \<open>\<^verbatim>\<open>Series.max()\<close>: NaN on an empty series.\<close>

definition series_max :: "real list \<Rightarrow> real option" where
  "series_max xs = (case xs of [] \<Rightarrow> None | x # ys \<Rightarrow> Some (fold max ys x))"

text \<open>
  \<^verbatim>\<open>series /= scalar\<close>. The scalar is NaN only when the series is empty, and then the
  quotient is the empty series. In \<open>risk_scores\<close> the scalar is the maximum of the series,
  which is positive when there is a group (\<open>top_raw_pos\<close> below): no division by zero.
\<close>

definition series_div :: "real list \<Rightarrow> real option \<Rightarrow> real list" where
  "series_div xs m = (case m of None \<Rightarrow> [] | Some d \<Rightarrow> map (\<lambda>x. x / d) xs)"

text \<open>A row of \<^verbatim>\<open>county_counts\<close>; the suffix \<open>_cc\<close> tells its columns from the frame's.\<close>

record county_count =
  NAME_2_cc :: string
  queried_scientificName_cc :: string
  occurrence_count :: nat
  Risk_Score :: real

definition county_key :: "joined \<Rightarrow> (string \<times> string) option" where
  "county_key r = map_option (\<lambda>c. (c, queried_scientificName r)) (NAME_2 r)"

definition county_sizes :: "joined list \<Rightarrow> ((string \<times> string) \<times> nat) list" where
  "county_sizes gdf = groupby_size county_key gdf"

definition risk_scores :: "nat list \<Rightarrow> real list" where
  "risk_scores counts =
     (let raw = map (\<lambda>n. log1p (real n)) counts;
          normalized = series_div raw (series_max raw)
      in map (around 2) normalized)"

definition county_counts :: "joined list \<Rightarrow> county_count list" where
  "county_counts gdf =
     (let sizes = county_sizes gdf
      in map (\<lambda>(((c, s), n), x).
                \<lparr>NAME_2_cc = c, queried_scientificName_cc = s, occurrence_count = n, Risk_Score = x\<rparr>)
           (zip sizes (risk_scores (map snd sizes))))"

subsection \<open>The risk score over numpy's own arithmetic\<close>

text \<open>
  Lines 104-106 once more, without reading a float as a real. The three operations of
  numpy that they call, \<^verbatim>\<open>log1p\<close> (applied to the integer count), the division and
  \<^verbatim>\<open>round\<close> (with its number of decimals), are parameters over any linearly ordered type
  of numbers; \<^verbatim>\<open>Series.max\<close> is the largest value in that order. What is proved of
  \<open>county_counts_with\<close> holds for whatever the three operations compute, so for the doubles
  of numpy. A row is ((county, species), count, score).
\<close>

record 'f numpy =
  np_log1p :: "nat \<Rightarrow> 'f"
  np_divide :: "'f \<Rightarrow> 'f \<Rightarrow> 'f"
  np_round :: "nat \<Rightarrow> 'f \<Rightarrow> 'f"

definition risk_scores_with :: "('f::linorder) numpy \<Rightarrow> nat list \<Rightarrow> 'f list" where
  "risk_scores_with np counts =
     (let raw = map (np_log1p np) counts;
          normalized =
            (case raw of [] \<Rightarrow> [] | x # ys \<Rightarrow> map (\<lambda>v. np_divide np v (fold max ys x)) raw)
      in map (np_round np 2) normalized)"

definition county_counts_with ::
  "('f::linorder) numpy \<Rightarrow> joined list \<Rightarrow> ((string \<times> string) \<times> nat \<times> 'f) list" where
  "county_counts_with np gdf =
     (let sizes = county_sizes gdf
      in map (\<lambda>(((c, s), n), x). ((c, s), n, x))
           (zip sizes (risk_scores_with np (map snd sizes))))"

text \<open>The arithmetic of \<open>county_counts\<close>: the three operations on reals.\<close>

definition real_numpy :: "real numpy" where
  "real_numpy = \<lparr>np_log1p = (\<lambda>n. log1p (real n)), np_divide = (/), np_round = around\<rparr>"

text \<open>
  Modelled from the spec: the output of \<^verbatim>\<open>assign_to_counties\<close>, whose module
  \<^verbatim>\<open>fetch_and_prepare\<close> is not among the sources. The specification's County Assigner
  returns one row per occurrence that matched a county and drops the occurrences outside
  all county polygons: every row of a join output has a county.
\<close>

definition join_output :: "joined list \<Rightarrow> bool" where
  "join_output gdf = list_all (\<lambda>r. NAME_2 r \<noteq> None) gdf"

subsection \<open>The hotspot map's table (lines 120-125)\<close>

text \<open>
  A row of \<^verbatim>\<open>md_counties.geojson\<close>. The left merge on \<^verbatim>\<open>NAME_2\<close> keeps the county rows in
  their order; a county with matches in \<^verbatim>\<open>county_counts\<close> gives one row per match, in the
  order of \<^verbatim>\<open>county_counts\<close>, and a county with none gives one row whose right-hand columns
  are all NaN (\<open>None\<close> for the whole right-hand row).
\<close>

record 'g county =
  NAME_2_geo :: string
  geometry :: 'g

definition merge_left :: "'g county list \<Rightarrow> county_count list \<Rightarrow> ('g county \<times> county_count option) list" where
  "merge_left county_geo cc =
     concat (map (\<lambda>g. case filter (\<lambda>a. NAME_2_cc a = NAME_2_geo g) cc of
                          [] \<Rightarrow> [(g, None)]
                        | ms \<Rightarrow> map (\<lambda>a. (g, Some a)) ms)
               county_geo)"

text \<open>
  A row of \<^verbatim>\<open>merged\<close>, after \<^verbatim>\<open>.fillna({"Risk Score": 0, "occurrence_count": 0})\<close>: the two
  named columns are filled, the species column keeps its NaN.
\<close>

record 'g merged_row =
  NAME_2_m :: string
  geometry_m :: 'g
  queried_scientificName_m :: "string option"
  occurrence_count_m :: nat
  Risk_Score_m :: real

definition fillna :: "'g county \<times> county_count option \<Rightarrow> 'g merged_row" where
  "fillna p =
     (case p of
        (g, None) \<Rightarrow>
          \<lparr>NAME_2_m = NAME_2_geo g, geometry_m = geometry g, queried_scientificName_m = None,
           occurrence_count_m = 0, Risk_Score_m = 0\<rparr>
      | (g, Some a) \<Rightarrow>
          \<lparr>NAME_2_m = NAME_2_geo g, geometry_m = geometry g,
           queried_scientificName_m = Some (queried_scientificName_cc a),
           occurrence_count_m = occurrence_count a, Risk_Score_m = Risk_Score a\<rparr>)"

definition merged :: "'g county list \<Rightarrow> county_count list \<Rightarrow> 'g merged_row list" where
  "merged county_geo cc = map fillna (merge_left county_geo cc)"

subsection \<open>The time series (lines 144-205)\<close>

text \<open>\<^verbatim>\<open>gdf_joined[gdf_joined["NAME_2"].isin(county_selection)]\<close>: a missing county is in no list.\<close>

definition isin :: "string list \<Rightarrow> joined \<Rightarrow> bool" where
  "isin county_sel r = (case NAME_2 r of None \<Rightarrow> False | Some c \<Rightarrow> c \<in> set county_sel)"

text \<open>The key tuples of the four \<^verbatim>\<open>groupby\<close> calls, in the order of their columns.\<close>

definition month_county_key :: "joined \<Rightarrow> (int \<times> string \<times> string) option" where
  \<comment> \<open>\<^verbatim>\<open>["year_month", "queried_scientificName", "NAME_2"]\<close>, line 149\<close>
  "month_county_key r =
     (case (year_month r, NAME_2 r) of
        (Some t, Some c) \<Rightarrow> Some (t, queried_scientificName r, c)
      | _ \<Rightarrow> None)"

definition month_key :: "dated \<Rightarrow> (int \<times> string) option" where
  \<comment> \<open>\<^verbatim>\<open>["year_month", "queried_scientificName"]\<close>, line 165\<close>
  "month_key r = map_option (\<lambda>t. (t, queried_scientificName r)) (year_month r)"

definition year_county_key :: "joined \<Rightarrow> (int \<times> string) option" where
  \<comment> \<open>\<^verbatim>\<open>["year", "NAME_2"]\<close>, line 185\<close>
  "year_county_key r =
     (case (year r, NAME_2 r) of
        (Some y, Some c) \<Rightarrow> Some (y, c)
      | _ \<Rightarrow> None)"

definition year_key :: "dated \<Rightarrow> (int \<times> string) option" where
  \<comment> \<open>\<^verbatim>\<open>["year", "queried_scientificName"]\<close>, line 202\<close>
  "year_key r = map_option (\<lambda>y. (y, queried_scientificName r)) (year r)"

text \<open>
  The two shapes of each table. The constructor tells which columns the key has:
  \<open>Monthly_by_county\<close> rows are ((year_month, species, county), count),
  \<open>Monthly_by_species\<close> rows are ((year_month, species), count),
  \<open>Annual_by_county\<close> rows are ((year, county), count) and
  \<open>Annual_by_species\<close> rows are ((year, species), count).
\<close>

datatype monthly_table =
    Monthly_by_county "((int \<times> string \<times> string) \<times> nat) list"
  | Monthly_by_species "((int \<times> string) \<times> nat) list"

datatype annual_table =
    Annual_by_county "((int \<times> string) \<times> nat) list"
  | Annual_by_species "((int \<times> string) \<times> nat) list"

definition comparing :: "bool \<Rightarrow> string list \<Rightarrow> bool" where
  \<comment> \<open>\<^verbatim>\<open>compare_counties and len(county_selection) == 2\<close>\<close>
  "comparing compare county_sel = (compare \<and> length county_sel = 2)"

definition monthly_counts :: "bool \<Rightarrow> string list \<Rightarrow> joined list \<Rightarrow> dated list \<Rightarrow> monthly_table" where
  "monthly_counts compare county_sel gdf df_occ =
     (if comparing compare county_sel
      then Monthly_by_county (groupby_size month_county_key (filter (isin county_sel) gdf))
      else Monthly_by_species (groupby_size month_key df_occ))"

definition annual_counts :: "bool \<Rightarrow> string list \<Rightarrow> joined list \<Rightarrow> dated list \<Rightarrow> annual_table" where
  "annual_counts compare county_sel gdf df_occ =
     (if comparing compare county_sel
      then Annual_by_county (groupby_size year_county_key (filter (isin county_sel) gdf))
      else Annual_by_species (groupby_size year_key df_occ))"

subsection \<open>The collaborators, the controls and the session\<close>

text \<open>
  What the run calls and does not define: the two GBIF functions and the spatial join of
  \<^verbatim>\<open>fetch_and_prepare\<close>, the date assembly \<^verbatim>\<open>pd.to_datetime(dict(year, month, day=1),
  errors="coerce")\<close> (NaT where pandas finds no date), and the reading of the county file.
  \<open>Inl e\<close> is an exception whose text is \<open>e\<close>: the GBIF functions are called inside
  \<^verbatim>\<open>try\<close>, the join and the file reader outside of it.
\<close>

record 'g env =
  get_taxon_key :: "string \<Rightarrow> string + int"
  fetch_occurrences_for_taxon :: "int \<Rightarrow> string \<Rightarrow> string \<Rightarrow> int \<Rightarrow> int \<Rightarrow> string + fetched list"
  to_datetime :: "int \<Rightarrow> int \<Rightarrow> int \<Rightarrow> int option"
  assign_to_counties :: "dated list \<Rightarrow> string + joined list"
  read_file :: "string \<Rightarrow> string + 'g county list"

text \<open>
  The sidebar's widgets, as the values they hold in one execution of the script;
  \<open>multiselect\<close> is the selection that the county selector holds when it is shown.
\<close>

record controls =
  selected_species :: string
  year_range :: "int \<times> int"
  show_monthly :: bool
  compare_counties :: bool
  multiselect :: "string list"
  button :: bool

text \<open>\<^verbatim>\<open>st.session_state\<close>, initialised by lines 43-46.\<close>

record session =
  gdf_joined :: "joined list option"
  county_selection :: "string list"

definition initial_session :: session where
  "initial_session = \<lparr>gdf_joined = None, county_selection = []\<rparr>"

text \<open>What the script puts on the page, in order.\<close>

datatype 'g element =
    Sidebar_info string
  | Sidebar_multiselect "string list" "string list"
  | St_info string
  | St_error string
  | St_warning string
  | St_success string
  | St_markdown_scores "string \<times> real" "string \<times> real"
  | St_subheader string
  | Fig_map "'g merged_row list"
  | Fig_month monthly_table
  | Fig_annual annual_table

subsection \<open>The sidebar's county selector (lines 48-61)\<close>

definition county_options :: "joined list \<Rightarrow> string list" where
  "county_options gdf = sort (remdups (List.map_filter NAME_2 gdf))"

text \<open>
  \<^verbatim>\<open>st.sidebar.multiselect(label, options=..., max_selections=..., default=...)\<close> raises a
  \<^verbatim>\<open>StreamlitAPIException\<close> when a default value is not among the options, and when
  the selection it holds has more entries than \<^verbatim>\<open>max_selections\<close>; otherwise it returns
  the selection. Nothing catches the exception: the script ends at line 55.
\<close>

definition multiselect_widget ::
  "string list \<Rightarrow> nat \<Rightarrow> string list \<Rightarrow> string list \<Rightarrow> string + string list" where
  "multiselect_widget options max_selections default_values selection =
     (if \<not> set default_values \<subseteq> set options \<or> max_selections < length selection
      then Inl ''StreamlitAPIException''
      else Inr selection)"

definition sidebar ::
  "controls \<Rightarrow> session \<Rightarrow> string + (string list \<times> session \<times> 'g element list)" where
  "sidebar ui st =
     (if compare_counties ui then
        (case gdf_joined st of
           None \<Rightarrow>
             Inr ([], st, [Sidebar_info ''Run analysis first to load counties for comparison.''])
         | Some gdf \<Rightarrow>
             (case multiselect_widget (county_options gdf) 2 (county_selection st)
                     (multiselect ui) of
                Inl e \<Rightarrow> Inl e
              | Inr county_sel \<Rightarrow>
                  Inr (county_sel, st\<lparr>county_selection := county_sel\<rparr>,
                       [Sidebar_multiselect (county_options gdf) (county_selection st)])))
      else Inr ([], st, []))"

subsection \<open>The run (lines 64-215)\<close>

text \<open>The \<^verbatim>\<open>try\<close> block, lines 66-78: the first exception ends it.\<close>

definition fetch :: "'g env \<Rightarrow> controls \<Rightarrow> string + occurrence list" where
  "fetch env ui =
     (case get_taxon_key env (selected_species ui) of
        Inl e \<Rightarrow> Inl e
      | Inr key \<Rightarrow>
          (case fetch_occurrences_for_taxon env key ''US'' ''Maryland''
                  (fst (year_range ui)) (snd (year_range ui)) of
             Inl e \<Rightarrow> Inl e
           | Inr df \<Rightarrow>
               Inr (map (\<lambda>r. \<lparr>year = year r, month = month r,
                               queried_scientificName = selected_species ui\<rparr>) df)))"

text \<open>
  Lines 85-91: rows without a year or a month are dropped, then the first day of the
  month is assembled (the casts to \<^verbatim>\<open>int\<close> leave the values as they are).
\<close>

definition prepare :: "'g env \<Rightarrow> occurrence list \<Rightarrow> dated list" where
  "prepare env df =
     map (\<lambda>r. \<lparr>year = year r, month = month r,
                queried_scientificName = queried_scientificName r,
                year_month = (case (year r, month r) of
                                (Some y, Some m) \<Rightarrow> to_datetime env y m 1
                              | _ \<Rightarrow> None)\<rparr>)
       (filter (\<lambda>r. year r \<noteq> None \<and> month r \<noteq> None) df)"

function str_nat :: "nat \<Rightarrow> string" where
  "str_nat n =
     (if n < 10 then [char_of (48 + n)]
      else str_nat (n div 10) @ [char_of (48 + n mod 10)])"
  by pat_completeness auto
termination
  by (relation "measure id") auto

declare str_nat.simps [simp del]

text \<open>
  \<^verbatim>\<open>scores = county_counts.set_index("NAME_2")["Risk Score"].to_dict()\<close> and
  \<^verbatim>\<open>scores.get(c, 0)\<close>: of two rows with one county the later one stays in the dictionary.
\<close>

definition score_of :: "county_count list \<Rightarrow> string \<Rightarrow> real" where
  "score_of cc c =
     (case map_of (rev (map (\<lambda>a. (NAME_2_cc a, Risk_Score a)) cc)) c of
        None \<Rightarrow> 0
      | Some x \<Rightarrow> x)"

text \<open>
  A run reaches \<^verbatim>\<open>st.stop()\<close>, or ends with an exception that nothing catches (of the
  join or of the file reader), in both cases with what it had shown until then, or runs to
  the end of the script. \<open>aggregate\<close> is the run's \<^verbatim>\<open>county_counts\<close>.
\<close>

record 'g report =
  elements :: "'g element list"
  aggregate :: "county_count list"

datatype 'g run =
    Halted "'g element list"
  | Crashed string "'g element list"
  | Finished "'g report"

definition fetching :: string where
  "fetching = ''Fetching live GBIF data'' @ [CHR 0xE2, CHR 0x80, CHR 0xA6]"

definition run_analysis ::
  "'g env \<Rightarrow> controls \<Rightarrow> string list \<Rightarrow> session \<Rightarrow> 'g run \<times> session" where
  "run_analysis env ui county_sel st =
     (case fetch env ui of
        Inl e \<Rightarrow>
          (Halted [St_info fetching,
                   St_error (''Failed to fetch '' @ selected_species ui @ '': '' @ e)], st)
      | Inr fetched_df \<Rightarrow>
          if fetched_df = [] then
            (Halted [St_info fetching,
                     St_warning ''No records retrieved. Try adjusting filters.''], st)
          else
            (let df_occ = prepare env fetched_df
             in case assign_to_counties env df_occ of
                  Inl e \<Rightarrow> (Crashed e [St_info fetching], st)
                | Inr gdf \<Rightarrow>
                    (let cc = county_counts gdf;
                         scores =
                           (if comparing (compare_counties ui) county_sel
                            then [St_markdown_scores
                                    (county_sel ! 0, score_of cc (county_sel ! 0))
                                    (county_sel ! 1, score_of cc (county_sel ! 1))]
                            else []);
                         shown =
                           [St_info fetching] @ scores @
                           [St_success (''Fetched '' @ str_nat (length df_occ) @
                                        '' occurrence records.''),
                            St_subheader ''Hotspot Map''];
                         monthly =
                           (if show_monthly ui
                            then [St_subheader ''Monthly Presence Over Time'',
                                  Fig_month
                                    (monthly_counts (compare_counties ui) county_sel gdf df_occ)]
                            else [])
                     in case read_file env ''md_counties.geojson'' of
                          Inl e \<Rightarrow> (Crashed e shown, st\<lparr>gdf_joined := Some gdf\<rparr>)
                        | Inr county_geo \<Rightarrow>
                            (Finished
                               \<lparr>elements =
                                  shown @ [Fig_map (merged county_geo cc)] @ monthly @
                                  [St_subheader ''Annual Presence Summary'',
                                   Fig_annual
                                     (annual_counts (compare_counties ui) county_sel gdf df_occ)],
                                aggregate = cc\<rparr>,
                             st\<lparr>gdf_joined := Some gdf\<rparr>))))"

text \<open>
  One execution of the script: the sidebar, which may end the script with the selector's
  exception, then the run if the button was pressed.
\<close>

datatype 'g execution =
    Sidebar_raised string
  | No_run "'g element list"
  | Ran "'g element list" "'g run"

definition script :: "'g env \<Rightarrow> controls \<Rightarrow> session \<Rightarrow> 'g execution \<times> session" where
  "script env ui st =
     (case sidebar ui st of
        Inl e \<Rightarrow> (Sidebar_raised e, st)
      | Inr (county_sel, st1, side) \<Rightarrow>
          if button ui
          then (case run_analysis env ui county_sel st1 of (r, st2) \<Rightarrow> (Ran side r, st2))
          else (No_run side, st1))"

subsection \<open>The risk scorer in the specification's words\<close>

text \<open>
  The four steps of the specification's Risk Scorer, written from its text and not from
  the code: count the joined occurrences of each (county, species) pair that is observed;
  take the logarithm \<open>ln (1 + count)\<close>, which is numpy's \<^verbatim>\<open>log1p\<close> of the count; divide
  by the largest raw score over all groups of the run; round to two decimals. The rows are
  listed by ascending key.
\<close>

definition spec_count :: "joined list \<Rightarrow> string \<times> string \<Rightarrow> nat" where
  "spec_count gdf k =
     length (filter (\<lambda>r. NAME_2 r = Some (fst k) \<and> queried_scientificName r = snd k) gdf)"

definition spec_groups :: "joined list \<Rightarrow> (string \<times> string) set" where
  "spec_groups gdf = {k. 0 < spec_count gdf k}"




text \<open>The divisor of line 105, named for the proofs.\<close>

definition top_raw :: "joined list \<Rightarrow> real" where
  "top_raw gdf = Max ((\<lambda>n. log1p (real n)) ` snd ` set (county_sizes gdf))"

subsection \<open>The time series in the specification's words\<close>

text \<open>
  A bucketed output lists every key that is observed, once, with the number of
  occurrence rows that have the key, by ascending key: \<open>tally size_of\<close>, for a function
  \<open>size_of\<close> that gives each key its number of rows.
\<close>

definition tally :: "('k \<Rightarrow> nat) \<Rightarrow> ('k::linorder \<times> nat) list" where
  "tally size_of = map (\<lambda>k. (k, size_of k)) (sorted_list_of_set {k. 0 < size_of k})"

definition month_species_count :: "dated list \<Rightarrow> int \<times> string \<Rightarrow> nat" where
  "month_species_count df k =
     length (filter (\<lambda>r. year_month r = Some (fst k) \<and> queried_scientificName r = snd k) df)"

definition year_species_count :: "dated list \<Rightarrow> int \<times> string \<Rightarrow> nat" where
  "year_species_count df k =
     length (filter (\<lambda>r. year r = Some (fst k) \<and> queried_scientificName r = snd k) df)"

text \<open>
  A row of an annual table with the key columns it has: ((year, species, county), count),
  where a column that is not in the key is \<open>None\<close>.
\<close>

type_synonym bucket = "(int \<times> string option \<times> string option) \<times> nat"

definition annual_buckets :: "annual_table \<Rightarrow> bucket list" where
  "annual_buckets t =
     (case t of
        Annual_by_county rows \<Rightarrow> map (\<lambda>((y, c), n). ((y, None, Some c), n)) rows
      | Annual_by_species rows \<Rightarrow> map (\<lambda>((y, s), n). ((y, Some s, None), n)) rows)"

text \<open>
  The annual output as the specification words it: the key is (year, species), and the
  county joins the key when two counties are compared.
\<close>

definition year_species_county_key :: "joined \<Rightarrow> (int \<times> string \<times> string) option" where
  "year_species_county_key r =
     (case (year r, NAME_2 r) of
        (Some y, Some c) \<Rightarrow> Some (y, queried_scientificName r, c)
      | _ \<Rightarrow> None)"

definition spec_annual_buckets ::
  "bool \<Rightarrow> string list \<Rightarrow> joined list \<Rightarrow> dated list \<Rightarrow> bucket list" where
  "spec_annual_buckets compare county_sel gdf df_occ =
     (if comparing compare county_sel
      then map (\<lambda>((y, s, c), n). ((y, Some s, Some c), n))
             (groupby_size year_species_county_key (filter (isin county_sel) gdf))
      else map (\<lambda>((y, s), n). ((y, Some s, None), n)) (groupby_size year_key df_occ))"

subsection \<open>The aggregate table of a run\<close>

definition aggregate_table :: "'g run \<Rightarrow> county_count list option" where
  "aggregate_table r =
     (case r of Halted _ \<Rightarrow> None | Crashed _ _ \<Rightarrow> None | Finished rep \<Rightarrow> Some (aggregate rep))"

definition script_aggregate :: "'g env \<Rightarrow> controls \<Rightarrow> session \<Rightarrow> county_count list option" where
  "script_aggregate env ui st =
     (case fst (script env ui st) of
        Sidebar_raised e \<Rightarrow> None
      | No_run side \<Rightarrow> None
      | Ran side r \<Rightarrow> aggregate_table r)"

text \<open>
  The table of a run that reaches the end of the script, read off the result of the
  \<^verbatim>\<open>try\<close> block; it is used to state what \<open>aggregate_table\<close> depends on.
\<close>

definition pipeline_aggregate :: "'g env \<Rightarrow> string + occurrence list \<Rightarrow> county_count list option" where
  "pipeline_aggregate env fetched_df =
     (case fetched_df of
        Inl e \<Rightarrow> None
      | Inr d \<Rightarrow>
          if d = [] then None
          else (case assign_to_counties env (prepare env d) of
                  Inl e \<Rightarrow> None
                | Inr gdf \<Rightarrow>
                    (case read_file env ''md_counties.geojson'' of
                       Inl e \<Rightarrow> None
                     | Inr county_geo \<Rightarrow> Some (county_counts gdf))))"

subsection \<open>Sample data\<close>

text \<open>
  A joined occurrence of \<^emph>\<open>Aedes albopictus\<close> in a given year, month and county (or in no
  county), and small frames built from it; the theorems below are instantiated on them.
\<close>

definition sighting :: "int \<Rightarrow> int \<Rightarrow> string option \<Rightarrow> joined" where
  "sighting y m c =
     \<lparr>year = Some y, month = Some m, queried_scientificName = ''Aedes albopictus'',
      year_month = Some (12 * y + m - 1), NAME_2 = c\<rparr>"

definition one_county :: "joined list" where
  "one_county = [sighting 2021 6 (Some ''Howard'')]"

definition two_counties :: "joined list" where
  "two_counties =
     [sighting 2021 6 (Some ''Howard''), sighting 2021 7 (Some ''Kent''),
      sighting 2022 6 (Some ''Howard'')]"

definition nine_in_howard :: "joined list" where
  "nine_in_howard = replicate 9 (sighting 2021 6 (Some ''Howard''))"

definition county_file :: "unit county list" where
  "county_file =
     [\<lparr>NAME_2_geo = ''Howard'', geometry = ()\<rparr>, \<lparr>NAME_2_geo = ''Kent'', geometry = ()\<rparr>]"

definition record_of :: "int \<Rightarrow> int \<Rightarrow> dated" where
  "record_of y m =
     \<lparr>year = Some y, month = Some m, queried_scientificName = ''Aedes albopictus'',
      year_month = Some (12 * y + m - 1)\<rparr>"

text \<open>The dated records that \<open>two_counties\<close> is the join of.\<close>

definition three_records :: "dated list" where
  "three_records = [record_of 2021 6, record_of 2021 7, record_of 2022 6]"

text \<open>
  Collaborators for sample runs: a GBIF that answers with three records, one of them
  without a year, and a join that puts every record in Howard county; a GBIF whose name
  lookup raises; a GBIF that has no record.
\<close>

definition gbif_sample :: "unit env" where
  "gbif_sample =
     \<lparr>get_taxon_key = (\<lambda>name. Inr 1651430),
      fetch_occurrences_for_taxon =
        (\<lambda>key country state y0 y1.
           Inr [\<lparr>year = Some 2021, month = Some 6\<rparr>, \<lparr>year = None, month = Some 7\<rparr>,
                \<lparr>year = Some 2022, month = Some 6\<rparr>]),
      to_datetime = (\<lambda>y m d. if 1 \<le> m \<and> m \<le> 12 then Some (12 * y + m - 1) else None),
      assign_to_counties =
        (\<lambda>df. Inr (map (\<lambda>r. \<lparr>year = year r, month = month r,
                               queried_scientificName = queried_scientificName r,
                               year_month = year_month r, NAME_2 = Some ''Howard''\<rparr>) df)),
      read_file = (\<lambda>path. Inr county_file)\<rparr>"

definition gbif_down :: "unit env" where
  "gbif_down = gbif_sample\<lparr>get_taxon_key := (\<lambda>name. Inl ''timed out'')\<rparr>"

definition gbif_empty :: "unit env" where
  "gbif_empty =
     gbif_sample\<lparr>fetch_occurrences_for_taxon := (\<lambda>key country state y0 y1. Inr [])\<rparr>"

definition ui_plain :: controls where
  "ui_plain =
     \<lparr>selected_species = ''Aedes albopictus'', year_range = (2020, 2023), show_monthly = True,
      compare_counties = False, multiselect = [], button = True\<rparr>"

definition ui_compare :: controls where
  "ui_compare =
     \<lparr>selected_species = ''Aedes albopictus'', year_range = (2020, 2023), show_monthly = False,
      compare_counties = True, multiselect = [''Howard'', ''Kent''], button = True\<rparr>"

definition after_a_run :: session where
  "after_a_run = \<lparr>gdf_joined = Some two_counties, county_selection = [''Kent'']\<rparr>"

text \<open>A session whose stored selection names a county that the stored frame does not have.\<close>

definition stale_selection :: session where
  "stale_selection = \<lparr>gdf_joined = Some one_county, county_selection = [''Howard'', ''Kent'']\<rparr>"

section \<open>Properties\<close>

subsection \<open>Grouping\<close>

lemma count_list_map_filter:
  "count_list (List.map_filter key rows) k = length (filter (\<lambda>r. key r = Some k) rows)"
  by (induction rows) (auto split: option.splits)

lemma set_map_filter: "set (List.map_filter key rows) = {k. \<exists>r\<in>set rows. key r = Some k}"
  by (induction rows) (auto split: option.splits)

lemma finite_keys: "finite {k. \<exists>r\<in>set rows. key r = Some k}"
  by (simp add: set_map_filter[symmetric])

lemma groupby_size_eq:
  "groupby_size key rows =
     map (\<lambda>k. (k, length (filter (\<lambda>r. key r = Some k) rows)))
       (sorted_list_of_set {k. \<exists>r\<in>set rows. key r = Some k})"
  by (simp add: groupby_size_def Let_def sorted_list_of_set_sort_remdups
      set_map_filter[symmetric] count_list_map_filter)

lemma groupby_size_set:
  "set (groupby_size key rows) =
     (\<lambda>k. (k, length (filter (\<lambda>r. key r = Some k) rows))) ` {k. \<exists>r\<in>set rows. key r = Some k}"
  by (simp add: groupby_size_eq finite_keys)

lemma groupby_size_positive: "(k, n) \<in> set (groupby_size key rows) \<Longrightarrow> 0 < n"
  by (auto simp: groupby_size_set filter_empty_conv)

lemma groupby_size_sum:
  "sum_list (map snd (groupby_size key rows)) = length (filter (\<lambda>r. key r \<noteq> None) rows)"
proof -
  let ?ks = "List.map_filter key rows"
  have "sum_list (map snd (groupby_size key rows)) =
        sum_list (map (count_list ?ks) (sort (remdups ?ks)))"
    by (simp add: groupby_size_def Let_def comp_def)
  also have "\<dots> = sum (count_list ?ks) (set ?ks)"
    by (subst sum_list_distinct_conv_sum_set) simp_all
  also have "\<dots> = length ?ks"
    by (rule sum_count_set) simp_all
  also have "\<dots> = length (filter (\<lambda>r. key r \<noteq> None) rows)"
    by (induction rows) (auto split: option.splits)
  finally show ?thesis .
qed

subsection \<open>Rounding\<close>

lemma rint_lower: "x - 1 / 2 \<le> of_int (rint x)"
  unfolding rint_def Let_def by (auto; linarith)

lemma rint_upper: "of_int (rint x) \<le> x + 1 / 2"
  unfolding rint_def Let_def by (auto; linarith)

lemma rint_of_int: "rint (of_int n) = n"
  by (simp add: rint_def)

text \<open>
  Rounding half to even is monotone: were \<open>rint y < rint x\<close> for \<open>x \<le> y\<close>, the two
  bounds would force \<open>x = y\<close>.
\<close>

lemma rint_mono:
  assumes "x \<le> y"
  shows "rint x \<le> rint y"
proof (rule ccontr)
  assume "\<not> rint x \<le> rint y"
  then have gt: "rint y + 1 \<le> rint x" by simp
  then have "real_of_int (rint y) + 1 \<le> real_of_int (rint x)"
    by (metis of_int_1 of_int_add of_int_le_iff)
  with rint_upper[of x] rint_lower[of y] assms have "x = y" by linarith
  with gt show False by simp
qed

lemma rint_pos: "1 / 2 < x \<Longrightarrow> 0 < rint x"
  using rint_lower[of x] by linarith

lemma around_mono: "x \<le> y \<Longrightarrow> around d x \<le> around d y"
  unfolding around_def
  by (intro divide_right_mono) (auto intro!: rint_mono mult_right_mono)

lemma around_0: "around d 0 = 0"
  using rint_of_int[of 0] by (simp add: around_def)

lemma around_1: "around d 1 = 1"
proof -
  have "rint (10 ^ d) = 10 ^ d"
    using rint_of_int[of "10 ^ d"] by simp
  then show ?thesis by (simp add: around_def)
qed

subsection \<open>The risk score column\<close>

lemma series_max_eq: "xs \<noteq> [] \<Longrightarrow> series_max xs = Some (Max (set xs))"
proof (cases xs)
  case Nil
  assume "xs \<noteq> []"
  with Nil show ?thesis by simp
next
  case (Cons a list)
  then show ?thesis
    using Max.set_eq_fold[of a list] by (simp add: series_max_def)
qed

lemma risk_scores_eq:
  "risk_scores ns =
     map (\<lambda>n. around 2 (log1p (real n) / Max ((\<lambda>n. log1p (real n)) ` set ns))) ns"
proof (cases "ns = []")
  case True
  then show ?thesis by (simp add: risk_scores_def series_max_def series_div_def)
next
  case False
  then show ?thesis
    by (simp add: risk_scores_def series_max_eq series_div_def comp_def)
qed

lemma zip_map_same: "zip xs (map f xs) = map (\<lambda>x. (x, f x)) xs"
  by (induction xs) simp_all

lemma county_counts_rows:
  "county_counts gdf =
     map (\<lambda>(k, n). \<lparr>NAME_2_cc = fst k, queried_scientificName_cc = snd k, occurrence_count = n,
                     Risk_Score = around 2 (log1p (real n) / top_raw gdf)\<rparr>)
       (county_sizes gdf)"
  by (simp add: county_counts_def Let_def risk_scores_eq zip_map_same case_prod_unfold top_raw_def)

lemma county_counts_counts: "map occurrence_count (county_counts gdf) = map snd (county_sizes gdf)"
  by (simp add: county_counts_rows comp_def case_prod_unfold)

lemma county_counts_member:
  assumes "r \<in> set (county_counts gdf)"
  shows "(\<exists>k. (k, occurrence_count r) \<in> set (county_sizes gdf)) \<and>
         Risk_Score r = around 2 (log1p (real (occurrence_count r)) / top_raw gdf)"
  using assms by (fastforce simp: county_counts_rows)

lemma county_key_Some:
  "county_key r = Some k \<longleftrightarrow> NAME_2 r = Some (fst k) \<and> queried_scientificName r = snd k"
  by (cases k) (auto simp: county_key_def)

lemma county_key_None: "county_key r = None \<longleftrightarrow> NAME_2 r = None"
  by (simp add: county_key_def)

lemma spec_count_key: "spec_count gdf k = length (filter (\<lambda>r. county_key r = Some k) gdf)"
  by (simp add: spec_count_def county_key_Some)

lemma spec_groups_key: "spec_groups gdf = {k. \<exists>r\<in>set gdf. county_key r = Some k}"
  by (auto simp: spec_groups_def spec_count_key filter_empty_conv)

lemma finite_spec_groups: "finite (spec_groups gdf)"
  by (simp add: spec_groups_key finite_keys)

lemma county_sizes_eq:
  "county_sizes gdf = map (\<lambda>k. (k, spec_count gdf k)) (sorted_list_of_set (spec_groups gdf))"
  by (simp add: county_sizes_def groupby_size_eq spec_groups_key spec_count_key)

lemma county_sizes_set:
  "set (county_sizes gdf) = (\<lambda>k. (k, spec_count gdf k)) ` spec_groups gdf"
  by (simp add: county_sizes_eq finite_spec_groups)

lemma county_sizes_empty_iff: "county_sizes gdf = [] \<longleftrightarrow> (\<forall>r\<in>set gdf. NAME_2 r = None)"
proof -
  have "county_sizes gdf = [] \<longleftrightarrow> set (county_sizes gdf) = {}" by simp
  also have "\<dots> \<longleftrightarrow> (\<forall>r\<in>set gdf. county_key r = None)"
    unfolding county_sizes_def groupby_size_set
    by (auto simp: not_Some_eq[symmetric] simp del: not_Some_eq not_None_eq)
  finally show ?thesis by (simp add: county_key_None)
qed

text \<open>The same pipeline over numpy's operations.\<close>

lemma risk_scores_with_eq:
  "risk_scores_with np ns =
     map (\<lambda>n. np_round np 2 (np_divide np (np_log1p np n) (Max (np_log1p np ` set ns)))) ns"
proof (cases ns)
  case Nil
  then show ?thesis by (simp add: risk_scores_with_def)
next
  case (Cons n ns')
  have "fold max (map (np_log1p np) ns') (np_log1p np n) =
        Max (set (np_log1p np n # map (np_log1p np) ns'))"
    by (rule Max.set_eq_fold[symmetric])
  then show ?thesis
    by (simp add: Cons risk_scores_with_def comp_def)
qed

lemma county_counts_with_rows:
  "county_counts_with np gdf =
     map (\<lambda>(k, n). (k, n,
            np_round np 2 (np_divide np (np_log1p np n)
              (Max (np_log1p np ` snd ` set (county_sizes gdf))))))
       (county_sizes gdf)"
  by (simp add: county_counts_with_def Let_def risk_scores_with_eq zip_map_same case_prod_unfold)

lemma county_counts_real:
  "map (\<lambda>r. ((NAME_2_cc r, queried_scientificName_cc r), occurrence_count r, Risk_Score r))
     (county_counts gdf) = county_counts_with real_numpy gdf"
  by (simp add: county_counts_rows county_counts_with_rows real_numpy_def top_raw_def
      comp_def case_prod_unfold)

lemma sizes_positive: "(k, n) \<in> set (county_sizes gdf) \<Longrightarrow> 0 < n"
  unfolding county_sizes_def by (rule groupby_size_positive)

lemma sizes_le_length:
  assumes "(k, n) \<in> set (county_sizes gdf)"
  shows "n \<le> length gdf"
  using assms by (auto simp: county_sizes_set spec_count_def)

lemma log1p_pos: "0 < n \<Longrightarrow> 0 < log1p (real n)"
  by (simp add: log1p_def)

lemma log1p_mono: "m \<le> n \<Longrightarrow> log1p (real m) \<le> log1p (real n)"
  by (simp add: log1p_def)

lemma raw_le_top:
  assumes "(k, n) \<in> set (county_sizes gdf)"
  shows "log1p (real n) \<le> top_raw gdf"
  unfolding top_raw_def using assms
  by (intro Max_ge) (auto simp: image_iff intro!: bexI[of _ "(k, n)"])

lemma top_raw_pos:
  assumes "(k, n) \<in> set (county_sizes gdf)"
  shows "0 < top_raw gdf"
  using raw_le_top[OF assms] log1p_pos[OF sizes_positive[OF assms]] by linarith

lemma top_raw_attained:
  assumes "county_sizes gdf \<noteq> []"
  shows "\<exists>(k, n)\<in>set (county_sizes gdf). log1p (real n) = top_raw gdf"
proof -
  let ?S = "(\<lambda>n. log1p (real n)) ` snd ` set (county_sizes gdf)"
  have "finite ?S" by simp
  moreover have "?S \<noteq> {}" using assms by simp
  ultimately have "Max ?S \<in> ?S" by (rule Max_in)
  then show ?thesis by (fastforce simp: top_raw_def)
qed

lemma top_raw_le:
  assumes "county_sizes gdf \<noteq> []" and "length gdf < 2 ^ 63"
  shows "top_raw gdf \<le> 63 * ln 2"
proof -
  from top_raw_attained[OF assms(1)] obtain k n where
    kn: "(k, n) \<in> set (county_sizes gdf)" and eq: "log1p (real n) = top_raw gdf"
    by blast
  from sizes_le_length[OF kn] assms(2) have "Suc n \<le> 2 ^ 63" by simp
  then have "real (Suc n) \<le> real (2 ^ 63)" by (simp only: of_nat_le_iff)
  then have "1 + real n \<le> 2 ^ 63" by simp
  then have "ln (1 + real n) \<le> ln (2 ^ 63)" by simp
  also have "\<dots> = 63 * ln 2" using ln_realpow[of "2::real" 63] by simp
  finally show ?thesis by (simp add: eq[symmetric] log1p_def)
qed

lemma risk_bounds:
  assumes "r \<in> set (county_counts gdf)"
  shows "0 \<le> Risk_Score r \<and> Risk_Score r \<le> 1"
proof -
  from county_counts_member[OF assms] obtain k where
    k: "(k, occurrence_count r) \<in> set (county_sizes gdf)" and
    rs: "Risk_Score r = around 2 (log1p (real (occurrence_count r)) / top_raw gdf)"
    by blast
  let ?q = "log1p (real (occurrence_count r)) / top_raw gdf"
  have top: "0 < top_raw gdf" by (rule top_raw_pos[OF k])
  have "0 < log1p (real (occurrence_count r))" by (rule log1p_pos[OF sizes_positive[OF k]])
  with top have "0 \<le> ?q" by simp
  moreover from raw_le_top[OF k] top have "?q \<le> 1" by simp
  ultimately have "around 2 0 \<le> around 2 ?q" "around 2 ?q \<le> around 2 1"
    by (auto intro: around_mono)
  then show ?thesis by (simp add: rs around_0 around_1)
qed

lemma risk_top:
  assumes "county_sizes gdf \<noteq> []"
  shows "\<exists>r\<in>set (county_counts gdf). Risk_Score r = 1"
proof -
  from top_raw_attained[OF assms] obtain k n where
    kn: "(k, n) \<in> set (county_sizes gdf)" and eq: "log1p (real n) = top_raw gdf"
    by blast
  have "0 < top_raw gdf" by (rule top_raw_pos[OF kn])
  then have "around 2 (log1p (real n) / top_raw gdf) = 1"
    by (simp add: eq around_1)
  moreover have "\<lparr>NAME_2_cc = fst k, queried_scientificName_cc = snd k, occurrence_count = n,
                   Risk_Score = around 2 (log1p (real n) / top_raw gdf)\<rparr> \<in> set (county_counts gdf)"
    using kn by (force simp: county_counts_rows)
  ultimately show ?thesis by force
qed

lemma sighting_sel [simp]:
  "NAME_2 (sighting y m c) = c"
  "queried_scientificName (sighting y m c) = ''Aedes albopictus''"
  "year (sighting y m c) = Some y"
  "month (sighting y m c) = Some m"
  "year_month (sighting y m c) = Some (12 * y + m - 1)"
  by (simp_all add: sighting_def)

lemma sizes_two_counties:
  "county_sizes two_counties =
     [((''Howard'', ''Aedes albopictus''), 2), ((''Kent'', ''Aedes albopictus''), 1)]"
  by (simp add: two_counties_def county_sizes_def groupby_size_def county_key_def)

lemma counts_two_counties: "map occurrence_count (county_counts two_counties) = [2, 1]"
  by (simp add: county_counts_counts sizes_two_counties)

lemma rows_two_counties:
  "length (county_counts two_counties) = 2"
  "occurrence_count (county_counts two_counties ! 0) = 2"
  "occurrence_count (county_counts two_counties ! 1) = 1"
  using arg_cong[OF counts_two_counties, of length]
    arg_cong[OF counts_two_counties, of "\<lambda>xs. xs ! 0"]
    arg_cong[OF counts_two_counties, of "\<lambda>xs. xs ! 1"]
  by simp_all

subsection \<open>The merge and the time series\<close>

lemma county_counts_names:
  assumes "a \<in> set (county_counts gdf)"
  shows "\<exists>r\<in>set gdf. NAME_2 r = Some (NAME_2_cc a)"
proof -
  from assms obtain k n where "(k, n) \<in> set (county_sizes gdf)" and "NAME_2_cc a = fst k"
    by (fastforce simp: county_counts_rows)
  then show ?thesis
    by (auto simp: county_sizes_set spec_groups_key county_key_Some)
qed

lemma merge_left_unmatched:
  assumes "g \<in> set geo" and "filter (\<lambda>a. NAME_2_cc a = NAME_2_geo g) cc = []"
  shows "(g, None) \<in> set (merge_left geo cc)"
  using assms by (force simp: merge_left_def)

lemma merge_left_member:
  assumes "(g, x) \<in> set (merge_left geo cc)"
  shows "g \<in> set geo \<and>
         (case x of None \<Rightarrow> True | Some a \<Rightarrow> a \<in> set cc \<and> NAME_2_cc a = NAME_2_geo g)"
proof -
  from assms obtain g' where g': "g' \<in> set geo"
    and mem: "(g, x) \<in> set (case filter (\<lambda>a. NAME_2_cc a = NAME_2_geo g') cc of
                              [] \<Rightarrow> [(g', None)] | ms \<Rightarrow> map (\<lambda>a. (g', Some a)) ms)"
    by (auto simp: merge_left_def)
  show ?thesis
  proof (cases "filter (\<lambda>a. NAME_2_cc a = NAME_2_geo g') cc")
    case Nil
    with mem g' show ?thesis by simp
  next
    case (Cons a as)
    with mem have "g = g'"
      and "\<exists>b. x = Some b \<and> b \<in> set (filter (\<lambda>a. NAME_2_cc a = NAME_2_geo g') cc)"
      by auto
    with g' show ?thesis by auto
  qed
qed

lemma groupby_size_tally:
  assumes "\<And>r k. key r = Some k \<longleftrightarrow> P r k"
  shows "groupby_size key rows = tally (\<lambda>k. length (filter (\<lambda>r. P r k) rows))"
proof -
  have "{k. \<exists>r\<in>set rows. key r = Some k} = {k. 0 < length (filter (\<lambda>r. P r k) rows)}"
    by (auto simp: assms filter_empty_conv)
  then show ?thesis
    by (simp add: groupby_size_eq tally_def assms)
qed

lemma month_key_Some:
  "month_key r = Some k \<longleftrightarrow> year_month r = Some (fst k) \<and> queried_scientificName r = snd k"
  by (cases k) (auto simp: month_key_def)

lemma year_key_Some:
  "year_key r = Some k \<longleftrightarrow> year r = Some (fst k) \<and> queried_scientificName r = snd k"
  by (cases k) (auto simp: year_key_def)

lemma monthly_by_species: "groupby_size month_key df = tally (month_species_count df)"
  unfolding month_species_count_def by (rule groupby_size_tally) (rule month_key_Some)

lemma annual_by_species: "groupby_size year_key df = tally (year_species_count df)"
  unfolding year_species_count_def by (rule groupby_size_tally) (rule year_key_Some)

lemma groupby_size_row:
  assumes "(k, n) \<in> set (groupby_size key rows)"
  shows "\<exists>r\<in>set rows. key r = Some k"
  using assms by (auto simp: groupby_size_set)

lemma month_county_selected:
  assumes "((t, s, c), n) \<in> set (groupby_size month_county_key (filter (isin sel) gdf))"
  shows "c \<in> set sel"
proof -
  from groupby_size_row[OF assms] obtain r where
    "isin sel r" and "month_county_key r = Some (t, s, c)" by auto
  then show ?thesis
    by (auto simp: isin_def month_county_key_def split: option.splits)
qed

lemma year_county_selected:
  assumes "((y, c), n) \<in> set (groupby_size year_county_key (filter (isin sel) gdf))"
  shows "c \<in> set sel"
proof -
  from groupby_size_row[OF assms] obtain r where
    "isin sel r" and "year_county_key r = Some (y, c)" by auto
  then show ?thesis
    by (auto simp: isin_def year_county_key_def split: option.splits)
qed

subsection \<open>The run\<close>

lemma fetch_Inl:
  assumes "get_taxon_key env (selected_species ui) = Inl e \<or>
           (\<exists>key. get_taxon_key env (selected_species ui) = Inr key \<and>
                  fetch_occurrences_for_taxon env key ''US'' ''Maryland''
                    (fst (year_range ui)) (snd (year_range ui)) = Inl e)"
  shows "fetch env ui = Inl e"
  using assms by (auto simp: fetch_def)

lemma fetch_empty:
  assumes "get_taxon_key env (selected_species ui) = Inr key"
    and "fetch_occurrences_for_taxon env key ''US'' ''Maryland''
           (fst (year_range ui)) (snd (year_range ui)) = Inr []"
  shows "fetch env ui = Inr []"
  using assms by (simp add: fetch_def)

lemma fetch_cong:
  assumes "selected_species ui1 = selected_species ui2" and "year_range ui1 = year_range ui2"
  shows "fetch env ui1 = fetch env ui2"
  by (simp only: fetch_def assms)

text \<open>The aggregate table of a run, as a function of what the run fetched.\<close>

lemma run_aggregate:
  "aggregate_table (fst (run_analysis env ui sel st)) = pipeline_aggregate env (fetch env ui)"
  by (simp add: run_analysis_def aggregate_table_def pipeline_aggregate_def Let_def
      split: sum.splits)

lemma script_Ran:
  assumes "script env ui st = (Ran side r, s)"
  shows "\<exists>sel st1. sidebar ui st = Inr (sel, st1, side) \<and> button ui \<and>
                   run_analysis env ui sel st1 = (r, s)"
  using assms by (auto simp: script_def split: sum.splits if_splits prod.splits)

text \<open>
  A run that ends with a table has left its joined frame in the session (line 95), and
  the table is \<open>county_counts\<close> of that frame.
\<close>

lemma run_analysis_table:
  assumes "run_analysis env ui sel st = (r, s)" and "aggregate_table r = Some t"
  shows "\<exists>g. gdf_joined s = Some g \<and> t = county_counts g"
  using assms
  by (auto simp: run_analysis_def aggregate_table_def Let_def split: sum.splits if_splits)

text \<open>Grouping does not look at the order of the rows.\<close>

lemma groupby_size_mset:
  assumes "mset a = mset b"
  shows "groupby_size key a = groupby_size key b"
proof -
  have "set a = set b" using assms by (rule mset_eq_setD)
  moreover have "length (filter P a) = length (filter P b)" for P
    using assms by (metis mset_filter size_mset)
  ultimately show ?thesis by (simp add: groupby_size_eq)
qed

lemma county_counts_mset:
  assumes "mset a = mset b"
  shows "county_counts a = county_counts b"
  using groupby_size_mset[OF assms, of county_key]
  by (simp add: county_counts_def county_sizes_def)

lemma sidebar_plain: "\<not> compare_counties ui \<Longrightarrow> sidebar ui st = Inr ([], st, [])"
  by (simp add: sidebar_def)

subsection \<open>The sample data, evaluated\<close>

text \<open>
  The specification's scenario: nine joined records in one county give that county the
  count 9 and the score 1, and the other county of the file appears only in the merge,
  filled with zeros.
\<close>

lemma sizes_nine: "county_sizes nine_in_howard = [((''Howard'', ''Aedes albopictus''), 9)]"
  by (simp add: nine_in_howard_def county_sizes_def groupby_size_def county_key_def
      numeral_eq_Suc List.map_filter_def)

lemma scenario_nine_records:
  "county_counts nine_in_howard =
     [\<lparr>NAME_2_cc = ''Howard'', queried_scientificName_cc = ''Aedes albopictus'',
       occurrence_count = 9, Risk_Score = 1\<rparr>]"
  by (simp add: county_counts_rows sizes_nine top_raw_def log1p_def around_1)

lemma scenario_merged:
  "merged county_file (county_counts nine_in_howard) =
     [\<lparr>NAME_2_m = ''Howard'', geometry_m = (),
       queried_scientificName_m = Some ''Aedes albopictus'',
       occurrence_count_m = 9, Risk_Score_m = 1\<rparr>,
      \<lparr>NAME_2_m = ''Kent'', geometry_m = (), queried_scientificName_m = None,
       occurrence_count_m = 0, Risk_Score_m = 0\<rparr>]"
  by (simp add: scenario_nine_records merged_def merge_left_def county_file_def fillna_def)

text \<open>A sample run reaches the end of the script and aggregates the two dated records.\<close>

lemma sample_joined:
  "assign_to_counties gbif_sample (prepare gbif_sample
      (map (\<lambda>r. \<lparr>year = year r, month = month r, queried_scientificName = ''Aedes albopictus''\<rparr>)
        [\<lparr>year = Some 2021, month = Some 6\<rparr>, \<lparr>year = None, month = Some 7\<rparr>,
         \<lparr>year = Some 2022, month = Some 6\<rparr>])) =
   Inr [sighting 2021 6 (Some ''Howard''), sighting 2022 6 (Some ''Howard'')]"
  by (simp add: gbif_sample_def prepare_def sighting_def)

lemma sample_file: "read_file gbif_sample ''md_counties.geojson'' = Inr county_file"
  by (simp add: gbif_sample_def)

lemma sample_pipeline:
  "pipeline_aggregate gbif_sample (fetch gbif_sample ui_plain) =
     Some [\<lparr>NAME_2_cc = ''Howard'', queried_scientificName_cc = ''Aedes albopictus'',
            occurrence_count = 2, Risk_Score = 1\<rparr>]"
proof -
  have f: "fetch gbif_sample ui_plain =
      Inr (map (\<lambda>r. \<lparr>year = year r, month = month r, queried_scientificName = ''Aedes albopictus''\<rparr>)
        [\<lparr>year = Some 2021, month = Some 6\<rparr>, \<lparr>year = None, month = Some 7\<rparr>,
         \<lparr>year = Some 2022, month = Some 6\<rparr>])"
    by (simp add: fetch_def gbif_sample_def ui_plain_def)
  have s: "county_sizes [sighting 2021 6 (Some ''Howard''), sighting 2022 6 (Some ''Howard'')] =
      [((''Howard'', ''Aedes albopictus''), 2)]"
    by (simp add: county_sizes_def groupby_size_def county_key_def)
  show ?thesis
    unfolding f pipeline_aggregate_def
    by (simp add: sample_joined[simplified] sample_file[simplified] county_counts_rows s
        top_raw_def log1p_def around_1)
qed

lemma sample_run_plain:
  "script gbif_sample ui_plain initial_session =
     (Ran [] (fst (run_analysis gbif_sample ui_plain [] initial_session)),
      snd (run_analysis gbif_sample ui_plain [] initial_session))"
  by (simp add: script_def sidebar_def ui_plain_def split: prod.splits)

lemma sample_session_plain:
  "gdf_joined (snd (run_analysis gbif_sample ui_plain [] initial_session)) =
     Some [sighting 2021 6 (Some ''Howard''), sighting 2022 6 (Some ''Howard'')]"
proof -
  have f: "fetch gbif_sample ui_plain =
      Inr (map (\<lambda>r. \<lparr>year = year r, month = month r, queried_scientificName = ''Aedes albopictus''\<rparr>)
        [\<lparr>year = Some 2021, month = Some 6\<rparr>, \<lparr>year = None, month = Some 7\<rparr>,
         \<lparr>year = Some 2022, month = Some 6\<rparr>])"
    by (simp add: fetch_def gbif_sample_def ui_plain_def)
  show ?thesis
    unfolding run_analysis_def f
    by (simp add: sample_joined[simplified] sample_file[simplified] Let_def)
qed

lemma sample_options: "county_options two_counties = [''Howard'', ''Kent'']"
  by (simp add: county_options_def two_counties_def)

lemma sample_sidebar_compare:
  "sidebar ui_compare after_a_run =
     Inr ([''Howard'', ''Kent''], after_a_run\<lparr>county_selection := [''Howard'', ''Kent'']\<rparr>,
          [Sidebar_multiselect [''Howard'', ''Kent''] [''Kent'']])"
  by (simp add: sidebar_def multiselect_widget_def ui_compare_def after_a_run_def sample_options)

lemma sample_run_compare:
  "script gbif_sample ui_compare after_a_run =
     (Ran [Sidebar_multiselect [''Howard'', ''Kent''] [''Kent'']]
        (fst (run_analysis gbif_sample ui_compare [''Howard'', ''Kent'']
                (after_a_run\<lparr>county_selection := [''Howard'', ''Kent'']\<rparr>))),
      snd (run_analysis gbif_sample ui_compare [''Howard'', ''Kent'']
             (after_a_run\<lparr>county_selection := [''Howard'', ''Kent'']\<rparr>)))"
proof -
  have "button ui_compare" by (simp add: ui_compare_def)
  then show ?thesis
    by (simp add: script_def sample_sidebar_compare split: prod.splits)
qed

text \<open>The selector raises when the stored selection is not among the new options.\<close>

lemma sample_sidebar_raises:
  "fst (script gbif_sample ui_compare stale_selection) = Sidebar_raised ''StreamlitAPIException''"
  by (simp add: script_def sidebar_def multiselect_widget_def ui_compare_def
      stale_selection_def county_options_def one_county_def)

section \<open>The claims\<close>


text \<open>
  C2. Every aggregate row produced from a non-empty joined-occurrence set has a risk score
  between 0 and 1, and at least one row has the risk score 1: the group with the largest
  count is divided by its own raw score. The joined set is an output of the join, every
  row of which has a county.
\<close>

theorem C2_risk_score_bounds:
  assumes "join_output gdf" and "gdf \<noteq> []"
  shows "(\<forall>r\<in>set (county_counts gdf). 0 \<le> Risk_Score r \<and> Risk_Score r \<le> 1) \<and>
         (\<exists>r\<in>set (county_counts gdf). Risk_Score r = 1)"
proof (intro conjI ballI)
  fix r assume "r \<in> set (county_counts gdf)"
  then show "0 \<le> Risk_Score r" "Risk_Score r \<le> 1" using risk_bounds by blast+
next
  from assms obtain r where "r \<in> set gdf" and "NAME_2 r \<noteq> None"
    by (cases gdf) (auto simp: join_output_def)
  then have "county_sizes gdf \<noteq> []" by (auto simp: county_sizes_empty_iff)
  then show "\<exists>r\<in>set (county_counts gdf). Risk_Score r = 1" by (rule risk_top)
qed

theorem C2_witness:
  "join_output one_county \<and> one_county \<noteq> [] \<and>
   (\<exists>r\<in>set (county_counts one_county). 0 \<le> Risk_Score r \<and> Risk_Score r \<le> 1 \<and> Risk_Score r = 1)"
proof -
  have j: "join_output one_county" and n: "one_county \<noteq> []"
    by (simp_all add: one_county_def join_output_def)
  from C2_risk_score_bounds[OF j n] j n show ?thesis by fastforce
qed

text \<open>
  C3. For every joined-occurrence set, the occurrence counts of the (county, species)
  aggregate rows add up to the number of rows of the joined set, the size of the join
  output (whether the run has one species or several).
\<close>

theorem C3_count_conservation:
  assumes "join_output gdf"
  shows "sum_list (map occurrence_count (county_counts gdf)) = length gdf"
proof -
  from assms have "filter (\<lambda>r. NAME_2 r \<noteq> None) gdf = gdf"
    by (simp add: join_output_def list_all_iff)
  then show ?thesis
    by (simp add: county_counts_counts county_sizes_def groupby_size_sum county_key_None)
qed

theorem C3_witness:
  "join_output two_counties \<and>
   sum_list (map occurrence_count (county_counts two_counties)) = length two_counties"
proof -
  have j: "join_output two_counties"
    by (simp add: two_counties_def join_output_def)
  from C3_count_conservation[OF j] j show ?thesis by simp
qed

text \<open>
  C4. Of two aggregate rows of one run, the one with the strictly greater occurrence count
  has a risk score, after rounding, that is at least the other's (whatever their species).
\<close>

theorem C4_monotone:
  assumes "a \<in> set (county_counts gdf)" and "b \<in> set (county_counts gdf)"
    and "occurrence_count b < occurrence_count a"
  shows "Risk_Score b \<le> Risk_Score a"
proof -
  from county_counts_member[OF assms(1)] obtain k where
    k: "(k, occurrence_count a) \<in> set (county_sizes gdf)" and
    ra: "Risk_Score a = around 2 (log1p (real (occurrence_count a)) / top_raw gdf)"
    by blast
  from county_counts_member[OF assms(2)] have
    rb: "Risk_Score b = around 2 (log1p (real (occurrence_count b)) / top_raw gdf)"
    by blast
  have "0 < top_raw gdf" by (rule top_raw_pos[OF k])
  moreover have "log1p (real (occurrence_count b)) \<le> log1p (real (occurrence_count a))"
    using assms(3) by (intro log1p_mono) simp
  ultimately have "log1p (real (occurrence_count b)) / top_raw gdf
      \<le> log1p (real (occurrence_count a)) / top_raw gdf"
    by (simp add: divide_right_mono)
  then show ?thesis unfolding ra rb by (rule around_mono)
qed

theorem C4_witness:
  "county_counts two_counties ! 0 \<in> set (county_counts two_counties) \<and>
   county_counts two_counties ! 1 \<in> set (county_counts two_counties) \<and>
   occurrence_count (county_counts two_counties ! 1)
     < occurrence_count (county_counts two_counties ! 0) \<and>
   Risk_Score (county_counts two_counties ! 1) \<le> Risk_Score (county_counts two_counties ! 0)"
proof -
  have a: "county_counts two_counties ! 0 \<in> set (county_counts two_counties)"
    and b: "county_counts two_counties ! 1 \<in> set (county_counts two_counties)"
    using rows_two_counties(1) by simp_all
  have lt: "occurrence_count (county_counts two_counties ! 1)
      < occurrence_count (county_counts two_counties ! 0)"
    unfolding rows_two_counties by simp
  from C4_monotone[OF a b lt] a b lt show ?thesis by simp
qed

text \<open>
  C5. After the aggregate table is left-joined against the county file, every county with
  no observed occurrence appears in the merged table with the occurrence count 0 and the
  risk score 0: its filled row is there, and no row of that county has another count or
  score.
\<close>

theorem C5_fill_on_merge:
  assumes "g \<in> set geo" and "\<forall>r\<in>set gdf. NAME_2 r \<noteq> Some (NAME_2_geo g)"
  shows "\<lparr>NAME_2_m = NAME_2_geo g, geometry_m = geometry g, queried_scientificName_m = None,
          occurrence_count_m = 0, Risk_Score_m = 0\<rparr> \<in> set (merged geo (county_counts gdf)) \<and>
         (\<forall>m\<in>set (merged geo (county_counts gdf)).
            NAME_2_m m = NAME_2_geo g \<longrightarrow> occurrence_count_m m = 0 \<and> Risk_Score_m m = 0)"
proof (intro conjI ballI impI)
  have none: "\<And>a. a \<in> set (county_counts gdf) \<Longrightarrow> NAME_2_cc a \<noteq> NAME_2_geo g"
    using county_counts_names assms(2) by metis
  then have "filter (\<lambda>a. NAME_2_cc a = NAME_2_geo g) (county_counts gdf) = []"
    by (simp add: filter_empty_conv)
  with assms(1) have "(g, None) \<in> set (merge_left geo (county_counts gdf))"
    by (rule merge_left_unmatched)
  then have "fillna (g, None) \<in> set (merged geo (county_counts gdf))"
    unfolding merged_def by (simp add: image_iff) (rule bexI[of _ "(g, None)"], simp_all)
  then show "\<lparr>NAME_2_m = NAME_2_geo g, geometry_m = geometry g, queried_scientificName_m = None,
          occurrence_count_m = 0, Risk_Score_m = 0\<rparr> \<in> set (merged geo (county_counts gdf))"
    by (simp add: fillna_def)
  fix m assume m: "m \<in> set (merged geo (county_counts gdf))"
    and name: "NAME_2_m m = NAME_2_geo g"
  from m obtain g' x where gx: "(g', x) \<in> set (merge_left geo (county_counts gdf))" and
    mf: "m = fillna (g', x)"
    by (auto simp: merged_def)
  from mf name have same: "NAME_2_geo g' = NAME_2_geo g"
    by (simp add: fillna_def split: option.splits)
  have "x = None"
  proof (cases x)
    case None
    then show ?thesis .
  next
    case (Some a)
    with merge_left_member[OF gx] have "a \<in> set (county_counts gdf)"
      and "NAME_2_cc a = NAME_2_geo g'"
      by simp_all
    with none same show ?thesis by simp
  qed
  with mf show "occurrence_count_m m = 0" "Risk_Score_m m = 0"
    by (simp_all add: fillna_def)
qed

theorem C5_witness:
  "\<lparr>NAME_2_geo = ''Kent'', geometry = ()\<rparr> \<in> set county_file \<and>
   list_all (\<lambda>r. NAME_2 r \<noteq> Some ''Kent'') nine_in_howard \<and>
   \<lparr>NAME_2_m = ''Kent'', geometry_m = (), queried_scientificName_m = None,
     occurrence_count_m = 0, Risk_Score_m = 0\<rparr>
     \<in> set (merged county_file (county_counts nine_in_howard))"
proof -
  have g: "\<lparr>NAME_2_geo = ''Kent'', geometry = ()\<rparr> \<in> set county_file"
    by (simp add: county_file_def)
  have no: "\<forall>r\<in>set nine_in_howard.
      NAME_2 r \<noteq> Some (NAME_2_geo \<lparr>NAME_2_geo = ''Kent'', geometry = ()\<rparr>)"
    by (simp add: nine_in_howard_def)
  from C5_fill_on_merge[OF g no] g no show ?thesis
    by (simp add: list_all_iff)
qed

text \<open>
  C6. When exactly two counties are selected in comparison mode (the condition of lines
  146 and 182), the monthly and the annual output are grouped by county as well and
  every row's county is one of the selected ones. Otherwise, and so whenever fewer than
  two counties are selected, both outputs have no county column: they list each observed
  (month, species) and (year, species) with the number of all dated occurrences that have
  it, whatever their county.
\<close>

theorem C6_comparison_mode:
  "(comparing cmp sel \<longrightarrow>
      (\<exists>rows. monthly_counts cmp sel gdf df = Monthly_by_county rows \<and>
              (\<forall>((t, s, c), n)\<in>set rows. c \<in> set sel)) \<and>
      (\<exists>rows. annual_counts cmp sel gdf df = Annual_by_county rows \<and>
              (\<forall>((y, c), n)\<in>set rows. c \<in> set sel))) \<and>
   (\<not> comparing cmp sel \<longrightarrow>
      monthly_counts cmp sel gdf df = Monthly_by_species (tally (month_species_count df)) \<and>
      annual_counts cmp sel gdf df = Annual_by_species (tally (year_species_count df)))"
  using month_county_selected[of _ _ _ _ sel gdf] year_county_selected[of _ _ _ sel gdf]
  by (auto simp: monthly_counts_def annual_counts_def monthly_by_species annual_by_species)

theorem C6_witness:
  "comparing True [''Howard'', ''Kent''] \<and>
   (\<exists>rows. monthly_counts True [''Howard'', ''Kent''] two_counties three_records =
             Monthly_by_county rows \<and>
           list_all (\<lambda>((t, s, c), n). c \<in> set [''Howard'', ''Kent'']) rows) \<and>
   (\<exists>rows. annual_counts True [''Howard'', ''Kent''] two_counties three_records =
             Annual_by_county rows \<and>
           list_all (\<lambda>((y, c), n). c \<in> set [''Howard'', ''Kent'']) rows) \<and>
   \<not> comparing True [''Howard''] \<and>
   monthly_counts True [''Howard''] two_counties three_records =
     Monthly_by_species (tally (month_species_count three_records)) \<and>
   annual_counts True [''Howard''] two_counties three_records =
     Annual_by_species (tally (year_species_count three_records))"
proof -
  have yes: "comparing True [''Howard'', ''Kent'']" and no: "\<not> comparing True [''Howard'']"
    by (simp_all add: comparing_def)
  from C6_comparison_mode[of True "[''Howard'', ''Kent'']" two_counties three_records]
    C6_comparison_mode[of True "[''Howard'']" two_counties three_records] yes no
  show ?thesis unfolding list_all_iff by blast
qed

text \<open>
  C7. The annual bucketed output is keyed by (year, species), with the county added to
  the key in comparison mode, and each observed key appears with the count of its rows.
  The code does not do this in comparison mode: line 185 groups by year and county only,
  so the species is missing from the key, although the monthly table of the same mode
  (line 149) and the annual table outside of it (line 202) both keep it. Below, a run that
  compares Howard and Kent: the monthly rows carry the species, the annual rows do not,
  and so they are not the rows that the specification describes.
\<close>

theorem C7_annual_comparison_key:
  "comparing True [''Howard'', ''Kent''] \<and>
   monthly_counts True [''Howard'', ''Kent''] two_counties three_records =
     Monthly_by_county
       [((24257, ''Aedes albopictus'', ''Howard''), 1), ((24258, ''Aedes albopictus'', ''Kent''), 1),
        ((24269, ''Aedes albopictus'', ''Howard''), 1)] \<and>
   annual_counts True [''Howard'', ''Kent''] two_counties three_records =
     Annual_by_county [((2021, ''Howard''), 1), ((2021, ''Kent''), 1), ((2022, ''Howard''), 1)] \<and>
   annual_buckets (annual_counts True [''Howard'', ''Kent''] two_counties three_records) =
     [((2021, None, Some ''Howard''), 1), ((2021, None, Some ''Kent''), 1),
      ((2022, None, Some ''Howard''), 1)] \<and>
   spec_annual_buckets True [''Howard'', ''Kent''] two_counties three_records =
     [((2021, Some ''Aedes albopictus'', Some ''Howard''), 1),
      ((2021, Some ''Aedes albopictus'', Some ''Kent''), 1),
      ((2022, Some ''Aedes albopictus'', Some ''Howard''), 1)] \<and>
   annual_buckets (annual_counts True [''Howard'', ''Kent''] two_counties three_records) \<noteq>
     spec_annual_buckets True [''Howard'', ''Kent''] two_counties three_records"
  by (simp add: comparing_def annual_buckets_def annual_counts_def monthly_counts_def
      spec_annual_buckets_def two_counties_def groupby_size_def isin_def year_county_key_def
      month_county_key_def year_species_county_key_def)

text \<open>
  C8. When the taxon lookup or the occurrence fetch raises, the run shows an error that
  names the species and the exception and stops: nothing else is shown, no table is
  computed and the session is as it was. When the fetch returns no record, the run shows
  a warning instead of an error and stops in the same way.
\<close>

theorem C8_fetch_failure_halts:
  "((get_taxon_key env (selected_species ui) = Inl e \<or>
     (\<exists>key. get_taxon_key env (selected_species ui) = Inr key \<and>
            fetch_occurrences_for_taxon env key ''US'' ''Maryland''
              (fst (year_range ui)) (snd (year_range ui)) = Inl e)) \<longrightarrow>
    run_analysis env ui sel st =
      (Halted [St_info fetching,
               St_error (''Failed to fetch '' @ selected_species ui @ '': '' @ e)], st)) \<and>
   ((\<exists>key. get_taxon_key env (selected_species ui) = Inr key \<and>
           fetch_occurrences_for_taxon env key ''US'' ''Maryland''
             (fst (year_range ui)) (snd (year_range ui)) = Inr []) \<longrightarrow>
    run_analysis env ui sel st =
      (Halted [St_info fetching, St_warning ''No records retrieved. Try adjusting filters.''],
       st))"
proof (intro conjI impI)
  assume "get_taxon_key env (selected_species ui) = Inl e \<or>
     (\<exists>key. get_taxon_key env (selected_species ui) = Inr key \<and>
            fetch_occurrences_for_taxon env key ''US'' ''Maryland''
              (fst (year_range ui)) (snd (year_range ui)) = Inl e)"
  then have "fetch env ui = Inl e" by (rule fetch_Inl)
  then show "run_analysis env ui sel st =
      (Halted [St_info fetching,
               St_error (''Failed to fetch '' @ selected_species ui @ '': '' @ e)], st)"
    by (simp add: run_analysis_def)
next
  assume "\<exists>key. get_taxon_key env (selected_species ui) = Inr key \<and>
           fetch_occurrences_for_taxon env key ''US'' ''Maryland''
             (fst (year_range ui)) (snd (year_range ui)) = Inr []"
  then have "fetch env ui = Inr []" using fetch_empty by blast
  then show "run_analysis env ui sel st =
      (Halted [St_info fetching, St_warning ''No records retrieved. Try adjusting filters.''],
       st)"
    by (simp add: run_analysis_def)
qed

theorem C8_witness:
  "get_taxon_key gbif_down (selected_species ui_plain) = Inl ''timed out'' \<and>
   run_analysis gbif_down ui_plain [] initial_session =
     (Halted [St_info fetching, St_error ''Failed to fetch Aedes albopictus: timed out''],
      initial_session) \<and>
   get_taxon_key gbif_empty (selected_species ui_plain) = Inr 1651430 \<and>
   fetch_occurrences_for_taxon gbif_empty 1651430 ''US'' ''Maryland''
     (fst (year_range ui_plain)) (snd (year_range ui_plain)) = Inr [] \<and>
   run_analysis gbif_empty ui_plain [] initial_session =
     (Halted [St_info fetching, St_warning ''No records retrieved. Try adjusting filters.''],
      initial_session)"
  using C8_fetch_failure_halts[of gbif_down ui_plain "''timed out''" "[]" initial_session]
    C8_fetch_failure_halts[of gbif_empty ui_plain "''timed out''" "[]" initial_session]
  by (simp add: gbif_down_def gbif_empty_def gbif_sample_def ui_plain_def)

text \<open>
  C9. Two runs with the same species and the same year range, against the same
  collaborators (the same fetched occurrences and county polygons), have the same
  aggregate table, counts and risk scores included, or both end without one. A run is an
  execution of the script that reaches the button's handler: the two may start from
  different sessions and differ in every other control. The table is moreover the table
  of the joined occurrences that the run leaves in the session, in whatever order they
  are listed.
\<close>

theorem C9_same_inputs_same_aggregate:
  assumes "script env ui1 st1 = (Ran side1 r1, s1)"
    and "script env ui2 st2 = (Ran side2 r2, s2)"
    and "selected_species ui1 = selected_species ui2"
    and "year_range ui1 = year_range ui2"
  shows "aggregate_table r1 = aggregate_table r2 \<and>
         (\<forall>t. aggregate_table r1 = Some t \<longrightarrow>
              (\<exists>g. gdf_joined s1 = Some g \<and>
                   (\<forall>g'. mset g' = mset g \<longrightarrow> county_counts g' = t)))"
proof (intro conjI allI impI)
  from script_Ran[OF assms(1)] obtain sel1 st1' where
    run1: "run_analysis env ui1 sel1 st1' = (r1, s1)" by blast
  from script_Ran[OF assms(2)] obtain sel2 st2' where
    run2: "run_analysis env ui2 sel2 st2' = (r2, s2)" by blast
  have "aggregate_table r1 = pipeline_aggregate env (fetch env ui1)"
    using run_aggregate[of env ui1 sel1 st1'] run1 by simp
  moreover have "aggregate_table r2 = pipeline_aggregate env (fetch env ui2)"
    using run_aggregate[of env ui2 sel2 st2'] run2 by simp
  ultimately show "aggregate_table r1 = aggregate_table r2"
    using fetch_cong[OF assms(3,4), of env] by simp
  fix t assume "aggregate_table r1 = Some t"
  with run_analysis_table[OF run1] obtain g where
    g: "gdf_joined s1 = Some g" and t: "t = county_counts g" by blast
  have "\<forall>g'. mset g' = mset g \<longrightarrow> county_counts g' = t"
    using county_counts_mset t by blast
  with g show "\<exists>g. gdf_joined s1 = Some g \<and> (\<forall>g'. mset g' = mset g \<longrightarrow> county_counts g' = t)"
    by blast
qed

theorem C9_witness:
  "selected_species ui_plain = selected_species ui_compare \<and>
   year_range ui_plain = year_range ui_compare \<and>
   ui_plain \<noteq> ui_compare \<and> initial_session \<noteq> after_a_run \<and>
   script_aggregate gbif_sample ui_plain initial_session =
     Some [\<lparr>NAME_2_cc = ''Howard'', queried_scientificName_cc = ''Aedes albopictus'',
            occurrence_count = 2, Risk_Score = 1\<rparr>] \<and>
   script_aggregate gbif_sample ui_compare after_a_run =
     Some [\<lparr>NAME_2_cc = ''Howard'', queried_scientificName_cc = ''Aedes albopictus'',
            occurrence_count = 2, Risk_Score = 1\<rparr>] \<and>
   county_counts [sighting 2022 6 (Some ''Howard''), sighting 2021 6 (Some ''Howard'')] =
     [\<lparr>NAME_2_cc = ''Howard'', queried_scientificName_cc = ''Aedes albopictus'',
       occurrence_count = 2, Risk_Score = 1\<rparr>]"
proof -
  have h: "selected_species ui_plain = selected_species ui_compare"
    "year_range ui_plain = year_range ui_compare"
    by (simp_all add: ui_plain_def ui_compare_def)
  have d: "ui_plain \<noteq> ui_compare" "initial_session \<noteq> after_a_run"
    by (simp_all add: ui_plain_def ui_compare_def initial_session_def after_a_run_def)
  have plain: "script_aggregate gbif_sample ui_plain initial_session =
      Some [\<lparr>NAME_2_cc = ''Howard'', queried_scientificName_cc = ''Aedes albopictus'',
             occurrence_count = 2, Risk_Score = 1\<rparr>]"
    by (simp add: script_aggregate_def sample_run_plain run_aggregate sample_pipeline)
  note both = C9_same_inputs_same_aggregate[OF sample_run_plain sample_run_compare h]
  from both have same: "script_aggregate gbif_sample ui_compare after_a_run =
        script_aggregate gbif_sample ui_plain initial_session"
    by (simp add: script_aggregate_def sample_run_plain sample_run_compare)
  have table: "aggregate_table (fst (run_analysis gbif_sample ui_plain [] initial_session)) =
      Some [\<lparr>NAME_2_cc = ''Howard'', queried_scientificName_cc = ''Aedes albopictus'',
             occurrence_count = 2, Risk_Score = 1\<rparr>]"
    by (simp add: run_aggregate sample_pipeline)
  have "mset [sighting 2022 6 (Some ''Howard''), sighting 2021 6 (Some ''Howard'')] =
        mset [sighting 2021 6 (Some ''Howard''), sighting 2022 6 (Some ''Howard'')]"
    by (simp add: add.commute)
  with both table sample_session_plain
  have "county_counts [sighting 2022 6 (Some ''Howard''), sighting 2021 6 (Some ''Howard'')] =
      [\<lparr>NAME_2_cc = ''Howard'', queried_scientificName_cc = ''Aedes albopictus'',
        occurrence_count = 2, Risk_Score = 1\<rparr>]"
    by auto
  with plain same h d show ?thesis by simp
qed

text \<open>
  C10. Every row of the aggregate table before the merge has an occurrence count of at
  least 1 and a risk score strictly greater than 0. The count of a frame's rows is a
  64-bit integer, so a frame has fewer than \<open>2 ^ 63\<close> rows; then the quotient of line 105 is
  at least \<open>ln 2 / ln (2 ^ 63) = 1 / 63\<close>, which rounds to 0.02 or more.
\<close>

theorem C10_raw_rows_positive:
  assumes "length gdf < 2 ^ 63" and "r \<in> set (county_counts gdf)"
  shows "1 \<le> occurrence_count r \<and> 0 < Risk_Score r"
proof -
  from county_counts_member[OF assms(2)] obtain k where
    k: "(k, occurrence_count r) \<in> set (county_sizes gdf)" and
    rs: "Risk_Score r = around 2 (log1p (real (occurrence_count r)) / top_raw gdf)"
    by blast
  let ?raw = "log1p (real (occurrence_count r))"
  have pos: "0 < occurrence_count r" by (rule sizes_positive[OF k])
  have top: "0 < top_raw gdf" by (rule top_raw_pos[OF k])
  from k have "county_sizes gdf \<noteq> []" by auto
  then have top_le: "top_raw gdf \<le> 63 * ln 2" using assms(1) by (rule top_raw_le)
  have ln2: "0 < ln (2::real)" by simp
  have "ln 2 \<le> ?raw"
    using pos by (simp add: log1p_def)
  then have "ln 2 / (63 * ln 2) \<le> ?raw / top_raw gdf"
    using top top_le ln2 by (intro frac_le) simp_all
  moreover have "ln 2 / (63 * ln 2) = (1 / 63 :: real)" using ln2 by simp
  ultimately have "1 / 63 \<le> ?raw / top_raw gdf" by simp
  then have "1 / 2 < ?raw / top_raw gdf * 10 ^ 2" by simp
  then have "0 < rint (?raw / top_raw gdf * 10 ^ 2)"
    by (rule rint_pos)
  then have "0 < Risk_Score r" by (simp add: rs around_def)
  with pos show ?thesis by simp
qed

theorem C10_witness:
  "length one_county < 2 ^ 63 \<and>
   county_counts one_county ! 0 \<in> set (county_counts one_county) \<and>
   1 \<le> occurrence_count (county_counts one_county ! 0) \<and>
   0 < Risk_Score (county_counts one_county ! 0)"
proof -
  have len: "length one_county < 2 ^ 63" by (simp add: one_county_def)
  have "map occurrence_count (county_counts one_county) = [1]"
    by (simp add: county_counts_counts one_county_def county_sizes_def groupby_size_def
        county_key_def)
  then have "length (county_counts one_county) = 1"
    using arg_cong[of _ _ length] by fastforce
  then have mem: "county_counts one_county ! 0 \<in> set (county_counts one_county)" by simp
  from C10_raw_rows_positive[OF len mem] len mem show ?thesis by simp
qed

end
